theory Spec2Isabelle
  imports Main
begin

section \<open>Engine layer: packets, events and errors\<close>

text \<open>
  Go strings and byte slices are both sequences of bytes; an Isabelle \<open>char\<close> is a
  byte, so both are modelled as \<open>string\<close> and the conversion \<open>[]byte(s)\<close> keeps
  the bytes as they are.
\<close>

type_synonym bytes = string

text \<open>
  Modelled from the spec: the declarations of \<open>MessageType\<close>, \<open>PacketType\<close> and
  \<open>Packet\<close> are not in the sources at hand. Section 3 of the specification gives
  \<open>{messageType: {String, Binary}, packetType: {Open, Close, Ping, Pong, Message,
  Upgrade, Noop}, data: bytes}\<close>; the field names and their order are those of the
  composite literal \<open>Packet{msgType, pktType, data}\<close> in \<open>Socket.emit\<close>.
\<close>

datatype MessageType = MessageTypeString | MessageTypeBinary

datatype PacketType =
    PacketTypeOpen | PacketTypeClose | PacketTypePing | PacketTypePong
  | PacketTypeMessage | PacketTypeUpgrade | PacketTypeNoop

record Packet =
  msgType :: MessageType
  pktType :: PacketType
  data :: bytes

text \<open>
  Modelled from the spec: the declaration of the type \<open>event\<close> is not in the sources at
  hand. The named constants are the ones \<open>socket.go\<close> mentions; \<open>EventNamed\<close> stands
  for any other value of the type.
\<close>

datatype event =
    EventOpen | EventMessage | EventClose | EventError | EventUpgrade
  | EventPing | EventPong | EventNamed string

text \<open>
  Error values. The sentinels are the ones the sources name; \<open>GoError\<close> is any other
  error value, identified by its message.
\<close>

datatype error =
    ErrInvalidEvent | ErrPollingConnClosed | ErrorNamespaceUnavaialble
  | ErrUnknownPacket | GoError string

section \<open>Engine socket\<close>

text \<open>
  A \<open>Conn\<close> is an interface value; the socket holds a reference to it. Its
  implementations are outside the sources at hand, so every method call is recorded in
  a trace of effects, and what the call returns is supplied by the environment.
  Deadlines are \<open>time.Now().Add(d)\<close>; the trace keeps the duration \<open>d\<close>.
\<close>

type_synonym conn_ref = nat
type_synonym duration = int

datatype conn_call =
    SetReadDeadline duration
  | SetWriteDeadline duration
  | ReadPacket
  | WritePacket Packet
  | Pause
  | Resume
  | CloseConn

datatype effect =
    ConnCall conn_ref conn_call
  | RLock | RUnlock | Lock | Unlock
  | StoreConn conn_ref
  | StoreTransport string
  | Fire event MessageType bytes
  | EmitterClose
  | EmitterSubmit Packet

text \<open>
  The fields of \<open>Socket\<close>. The embedded \<open>*eventHandlers\<close> and the \<open>*emitter\<close> are
  objects whose code is elsewhere: calls to them appear in the trace. \<open>once_done\<close> is
  the state of the \<open>sync.Once\<close>.
\<close>

record Socket =
  Conn :: conn_ref
  readTimeout :: duration
  writeTimeout :: duration
  transport :: string
  once_done :: bool

text \<open>What the candidate conn and the current conn answer during one \<open>upgrade\<close>.\<close>

record upgrade_replies =
  first_read :: "error + Packet"
  pong_write :: "error option"
  pause_reply :: "error option"
  second_read :: "error + Packet"

definition upgrade ::
  "upgrade_replies \<Rightarrow> string \<Rightarrow> conn_ref \<Rightarrow> Socket \<times> effect list \<Rightarrow> Socket \<times> effect list"
where
  "upgrade env transport' newConn st =
    (let s = fst st;
         tr1 = snd st @ [ConnCall newConn (SetReadDeadline (readTimeout s)),
                         ConnCall newConn ReadPacket]
     in case first_read env of
          Inl err \<Rightarrow> (s, tr1 @ [ConnCall newConn CloseConn])
        | Inr p \<Rightarrow>
           (if pktType p \<noteq> PacketTypePing then (s, tr1 @ [ConnCall newConn CloseConn])
            else
              let p' = p\<lparr>pktType := PacketTypePong\<rparr>;
                  tr2 = tr1 @ [ConnCall newConn (SetWriteDeadline (writeTimeout s)),
                               ConnCall newConn (WritePacket p')]
              in (case pong_write env of
                    Some err \<Rightarrow> (s, tr2 @ [ConnCall newConn CloseConn])
                  | None \<Rightarrow>
                     (let conn = Conn s;
                          tr3 = tr2 @ [RLock, RUnlock, ConnCall conn Pause]
                      in (case pause_reply env of
                            Some err \<Rightarrow> (s, tr3 @ [ConnCall newConn CloseConn])
                          | None \<Rightarrow>
                             (let tr4 = tr3 @ [ConnCall newConn (SetReadDeadline (readTimeout s)),
                                              ConnCall newConn ReadPacket]
                              in (case second_read env of
                                    Inl err \<Rightarrow>
                                      (s, tr4 @ [ConnCall newConn CloseConn, ConnCall conn Resume])
                                  | Inr q \<Rightarrow>
                                     (if pktType q \<noteq> PacketTypeUpgrade
                                      then (s, tr4 @ [ConnCall newConn CloseConn,
                                                      ConnCall conn Resume])
                                      else
                                        (s\<lparr>Conn := newConn, transport := transport'\<rparr>,
                                         tr4 @ [Lock, StoreConn newConn,
                                                StoreTransport transport', Unlock,
                                                Fire EventUpgrade (msgType q) (data q)])))))))))"

text \<open>
  \<open>Close\<close>: the body of \<open>once.Do\<close> runs on the first call only. The named result
  \<open>err\<close> is \<open>nil\<close> unless the body assigns it what the conn's \<open>Close\<close> returned
  (\<open>close_reply\<close>, supplied by the environment).
\<close>

definition Close :: "error option \<Rightarrow> Socket \<times> effect list \<Rightarrow> error option \<times> Socket \<times> effect list"
where
  "Close close_reply st =
    (let s = fst st; tr = snd st
     in if once_done s then (None, s, tr)
        else (close_reply, s\<lparr>once_done := True\<rparr>,
              tr @ [EmitterClose, ConnCall (Conn s) CloseConn]))"

text \<open>
  \<open>n\<close> calls of \<open>Close\<close> in a row; \<open>reply i\<close> is what the conn's \<open>Close\<close> would
  return if call number \<open>i\<close> reached it. The results are listed in call order.
\<close>

fun Close_times ::
  "nat \<Rightarrow> (nat \<Rightarrow> error option) \<Rightarrow> Socket \<times> effect list
     \<Rightarrow> error option list \<times> Socket \<times> effect list"
where
  "Close_times 0 reply st = ([], st)"
| "Close_times (Suc n) reply st =
    (case Close_times n reply st of
       (rs, st') \<Rightarrow> (case Close (reply n) st' of (r, st'') \<Rightarrow> (rs @ [r], st'')))"

text \<open>
  The dynamic type of the \<open>args interface{}\<close> parameter of \<open>emit\<close>, as its two type
  assertions see it: a byte slice, a string, or any other value.
\<close>

datatype 'v args = ArgBytes bytes | ArgString string | ArgOther 'v

text \<open>
  \<open>json.Marshal\<close> is the standard library's and \<open>emitter.submit\<close> is outside the
  sources at hand: the first is a parameter, the second is recorded in the trace and
  returns what the environment says.
\<close>

record 'v emit_env =
  json_Marshal :: "'v \<Rightarrow> error + bytes"
  submit_reply :: "error option"

definition emit ::
  "'v emit_env \<Rightarrow> event \<Rightarrow> MessageType \<Rightarrow> 'v args \<Rightarrow> effect list \<Rightarrow> error option \<times> effect list"
where
  "emit env ev mt a tr =
    (case (case ev of
             EventOpen \<Rightarrow> Some PacketTypeOpen
           | EventMessage \<Rightarrow> Some PacketTypeMessage
           | EventClose \<Rightarrow> Some PacketTypeClose
           | EventPing \<Rightarrow> Some PacketTypePing
           | EventPong \<Rightarrow> Some PacketTypePong
           | _ \<Rightarrow> None) of
       None \<Rightarrow> (Some ErrInvalidEvent, tr)
     | Some pt \<Rightarrow>
        (case (case a of
                 ArgBytes d \<Rightarrow> Inr d
               | ArgString s \<Rightarrow> Inr s
               | ArgOther v \<Rightarrow> json_Marshal env v) of
           Inl err \<Rightarrow> (Some err, tr)
         | Inr d \<Rightarrow>
             (submit_reply env,
              tr @ [EmitterSubmit \<lparr>msgType = mt, pktType = pt, data = d\<rparr>])))"

definition Emit ::
  "'v emit_env \<Rightarrow> event \<Rightarrow> 'v args \<Rightarrow> effect list \<Rightarrow> error option \<times> effect list"
where
  "Emit env ev a tr = emit env ev MessageTypeString a tr"

definition Send :: "'v emit_env \<Rightarrow> 'v args \<Rightarrow> effect list \<Rightarrow> error option \<times> effect list"
where
  "Send env a tr = Emit env EventMessage a tr"

text \<open>
  Sample values for \<open>json.Marshal\<close>: \<open>nil\<close> and booleans have a JSON encoding, a
  channel has none (\<open>json.Marshal\<close> returns an \<open>UnsupportedTypeError\<close>).
\<close>

datatype go_value = GoNil | GoBool bool | GoChan

fun sample_Marshal :: "go_value \<Rightarrow> error + bytes" where
  "sample_Marshal GoNil = Inr ''null''"
| "sample_Marshal (GoBool b) = Inr (if b then ''true'' else ''false'')"
| "sample_Marshal GoChan = Inl (GoError ''json: unsupported type: chan int'')"

definition sample_emit_env :: "go_value emit_env" where
  "sample_emit_env = \<lparr>json_Marshal = sample_Marshal, submit_reply = None\<rparr>"

text \<open>Sample values: a polling socket, a probe Ping and the Upgrade that follows it.\<close>

definition sample_socket :: Socket where
  "sample_socket =
    \<lparr>Conn = 1, readTimeout = 60, writeTimeout = 25, transport = ''polling'',
     once_done = False\<rparr>"

definition probe_ping :: Packet where
  "probe_ping = \<lparr>msgType = MessageTypeString, pktType = PacketTypePing, data = ''probe''\<rparr>"

definition upgrade_pkt :: Packet where
  "upgrade_pkt = \<lparr>msgType = MessageTypeString, pktType = PacketTypeUpgrade, data = []\<rparr>"


text \<open>The candidate completes the handshake.\<close>

definition good_replies :: upgrade_replies where
  "good_replies =
    \<lparr>first_read = Inr probe_ping, pong_write = None, pause_reply = None,
     second_read = Inr upgrade_pkt\<rparr>"

section \<open>Reading the traces\<close>

text \<open>What a call added to the trace it started from.\<close>

definition added :: "'a list \<Rightarrow> 'a list \<Rightarrow> 'a list" where
  "added before after = drop (length before) after"






section \<open>Polling conn: the HTTP handler\<close>

text \<open>
  The part of a \<open>fasthttp.RequestCtx\<close> the handler reads, and the response it writes.
  \<open>sent_in\<close> lists the packets sent on the channel \<open>p.in\<close>, in order; \<open>logged\<close>
  the lines given to \<open>log.Println\<close>.
\<close>

record Request =
  Method :: string
  RequestURI :: string
  ContentType :: string
  Body :: bytes

record Response =
  statusCode :: nat
  contentType :: string
  body :: bytes

record handler_state =
  resp :: Response
  sent_in :: "Packet list"
  logged :: "string list"

text \<open>
  \<open>ctx.Error(msg, code)\<close> of fasthttp resets the response and sets the status code,
  the default content type and the message as body.
\<close>

definition ctx_Error :: "string \<Rightarrow> nat \<Rightarrow> Response" where
  "ctx_Error msg code =
    \<lparr>statusCode = code, contentType = ''text/plain; charset=utf-8'', body = msg\<rparr>"

text \<open>
  Modelled from the spec: the constants \<open>queryBase64\<close> and \<open>queryJSONP\<close> are declared
  outside the sources at hand. Section 6 of the specification gives the query
  parameters \<open>b64=<0|1>\<close> and \<open>j=<jsonp-index>\<close>.
\<close>

definition queryBase64 :: string where "queryBase64 = ''b64''"
definition queryJSONP :: string where "queryJSONP = ''j''"

text \<open>
  One \<open>select\<close> between \<open>case <-p.closed\<close> and \<open>case p.in <- pkt\<close>: it takes the
  first branch, takes the second, or neither ever becomes ready and the handler stays
  parked. Which one happens depends on the other goroutines, so it is an input.
\<close>

datatype select_case = RecvClosed | SendIn | Parked

text \<open>
  What the handler gets from code outside the sources at hand and from the standard
  library:
  \<^item> \<open>isClosed\<close>: the result of \<open>p.isClosed()\<close> on entry;
  \<^item> \<open>ReadPacketOut\<close>: the result of \<open>p.ReadPacketOut(context.Background())\<close>,
    \<open>None\<close> when it never returns;
  \<^item> \<open>ParseRequestURI\<close>: \<open>url.ParseRequestURI\<close>, giving on success the lookup
    \<open>rURL.Query().Get\<close> (the empty string for an absent key);
  \<^item> \<open>ParseMediaType\<close>: \<open>mime.ParseMediaType\<close>, giving the media type and its
    parameters; \<open>ToLower\<close>: \<open>strings.ToLower\<close>;
  \<^item> \<open>ReadFrom\<close>: \<open>payload.ReadFrom\<close> for the given \<open>xhr2\<close> flag, giving the decoded
    packets;
  \<^item> \<open>select_at i\<close>: the outcome of the \<open>select\<close> for packet number \<open>i\<close>;
  \<^item> \<open>WriteTo\<close>, \<open>WriteTo2\<close>: the \<open>WriteTo\<close> methods of the packet and of
    \<open>pkt.packet2()\<close>, giving the bytes written and the error;
  \<^item> \<open>json_Encode\<close>: \<open>json.NewEncoder(&buf).Encode\<close> of a string;
  \<^item> \<open>Error_text\<close>: the \<open>Error()\<close> method of error values.
\<close>

record polling_env =
  isClosed :: bool
  ReadPacketOut :: "(error + Packet) option"
  ParseRequestURI :: "string \<Rightarrow> error + (string \<Rightarrow> string)"
  ParseMediaType :: "string \<Rightarrow> error + string \<times> (string \<rightharpoonup> string)"
  ToLower :: "string \<Rightarrow> string"
  ReadFrom :: "bool \<Rightarrow> bytes \<Rightarrow> error + Packet list"
  select_at :: "nat \<Rightarrow> select_case"
  WriteTo :: "Packet \<Rightarrow> bytes \<times> error option"
  WriteTo2 :: "Packet \<Rightarrow> bytes \<times> error option"
  json_Encode :: "string \<Rightarrow> error + string"
  Error_text :: "error \<Rightarrow> string"

text \<open>
  \<open>fastWriteJSONP\<close> encodes into a buffer of its own, so nothing reaches the response
  body unless both encoders succeed. \<open>fmt.Fprintf\<close> on the context appends to the body;
  writing to a \<open>RequestCtx\<close> returns no error, so the error it passes on is \<open>nil\<close>.
\<close>

definition fastWriteJSONP ::
  "polling_env \<Rightarrow> string \<Rightarrow> Packet \<Rightarrow> Response \<Rightarrow> Response \<times> error option"
where
  "fastWriteJSONP env jsonp pkt r =
    (let r1 = r\<lparr>contentType := ''text/javascript; charset=UTF-8''\<rparr>
     in case WriteTo env pkt of
          (buf, Some err) \<Rightarrow> (r1, Some err)
        | (buf, None) \<Rightarrow>
           (case json_Encode env buf of
              Inl err \<Rightarrow> (r1, Some err)
            | Inr enc \<Rightarrow>
               (r1\<lparr>body := body r1 @ ''___eio['' @ jsonp @ '']('' @ [CHR 0x22] @ enc @
                                [CHR 0x22] @ '');'',
                   statusCode := 200\<rparr>, None)))"

definition fastWriteXHR :: "polling_env \<Rightarrow> Packet \<Rightarrow> Response \<Rightarrow> Response \<times> error option"
where
  "fastWriteXHR env pkt r =
    (let r1 = r\<lparr>contentType := ''text/plain; charset=UTF-8''\<rparr>
     in case WriteTo env pkt of
          (out, Some err) \<Rightarrow> (r1\<lparr>body := body r1 @ out\<rparr>, Some err)
        | (out, None) \<Rightarrow> (r1\<lparr>body := body r1 @ out, statusCode := 200\<rparr>, None))"

definition fastWriteXHR2 :: "polling_env \<Rightarrow> Packet \<Rightarrow> Response \<Rightarrow> Response \<times> error option"
where
  "fastWriteXHR2 env pkt r =
    (let r1 = r\<lparr>contentType := ''application/octet-stream''\<rparr>
     in case WriteTo2 env pkt of
          (out, Some err) \<Rightarrow> (r1\<lparr>body := body r1 @ out\<rparr>, Some err)
        | (out, None) \<Rightarrow> (r1\<lparr>body := body r1 @ out, statusCode := 200\<rparr>, None))"

text \<open>
  The loop \<open>for i := range payload.packets\<close> of the POST branch, from packet number
  \<open>i\<close> on. The result is \<open>None\<close> when a \<open>select\<close> stays parked; otherwise whether the
  loop ran to its end (\<open>True\<close>) or returned at \<open>case <-p.closed\<close> (\<open>False\<close>), with the
  packets sent so far.
\<close>

fun push_loop ::
  "(nat \<Rightarrow> select_case) \<Rightarrow> nat \<Rightarrow> Packet list \<Rightarrow> Packet list \<Rightarrow> (bool \<times> Packet list) option"
where
  "push_loop sel i [] sent = Some (True, sent)"
| "push_loop sel i (pk # pks) sent =
    (case sel i of
       RecvClosed \<Rightarrow> Some (False, sent)
     | SendIn \<Rightarrow> push_loop sel (Suc i) pks (sent @ [pk])
     | Parked \<Rightarrow> None)"

text \<open>The POST branch from \<open>payload.ReadFrom\<close> on, for the chosen \<open>xhr2\<close> flag.\<close>

definition post_payload ::
  "polling_env \<Rightarrow> bool \<Rightarrow> Request \<Rightarrow> handler_state \<Rightarrow> handler_state option"
where
  "post_payload env xhr2 req st =
    (case ReadFrom env xhr2 (Body req) of
       Inl err \<Rightarrow> Some (st\<lparr>resp := ctx_Error (Error_text env err) 500\<rparr>)
     | Inr packets \<Rightarrow>
        (case push_loop (select_at env) 0 packets (sent_in st) of
           None \<Rightarrow> None
         | Some (False, sent) \<Rightarrow> Some (st\<lparr>resp := ctx_Error ''closed'' 404, sent_in := sent\<rparr>)
         | Some (True, sent) \<Rightarrow> Some (st\<lparr>resp := ctx_Error ''OK'' 200, sent_in := sent\<rparr>)))"

text \<open>
  \<open>pollingConn.HandleFastHTTP\<close>. The result is \<open>None\<close> when the handler never returns.
  A Go map read \<open>params["charset"]\<close> of an absent key gives the empty string.
\<close>

definition HandleFastHTTP ::
  "polling_env \<Rightarrow> Request \<Rightarrow> handler_state \<Rightarrow> handler_state option"
where
  "HandleFastHTTP env req st =
    (if isClosed env
     then Some (st\<lparr>resp := ctx_Error (Error_text env ErrPollingConnClosed) 400\<rparr>)
     else if Method req = ''GET'' then
       (case ReadPacketOut env of
          None \<Rightarrow> None
        | Some (Inl err) \<Rightarrow> Some (st\<lparr>resp := ctx_Error (Error_text env err) 404\<rparr>)
        | Some (Inr pkt) \<Rightarrow>
           (case ParseRequestURI env (RequestURI req) of
              Inl err \<Rightarrow> Some (st\<lparr>resp := ctx_Error (Error_text env err) 400\<rparr>)
            | Inr q \<Rightarrow>
               (let b64 = q queryBase64;
                    jsonp = q queryJSONP;
                    written =
                      (if jsonp \<noteq> [] then fastWriteJSONP env jsonp pkt (resp st)
                       else if b64 = ''1'' then fastWriteXHR env pkt (resp st)
                       else fastWriteXHR2 env pkt (resp st))
                in (case snd written of
                      None \<Rightarrow> Some (st\<lparr>resp := fst written\<rparr>)
                    | Some err \<Rightarrow>
                        Some (st\<lparr>resp := fst written,
                                 logged := logged st @ [''polling: '' @ Error_text env err]\<rparr>)))))
     else if Method req = ''POST'' then
       (case ParseMediaType env (ContentType req) of
          Inl err \<Rightarrow> Some (st\<lparr>resp := ctx_Error (Error_text env err) 400\<rparr>)
        | Inr (mediatype, params) \<Rightarrow>
           (if mediatype = ''application/octet-stream'' then post_payload env True req st
            else if mediatype = ''text/plain'' then
              (if ToLower env (case params ''charset'' of None \<Rightarrow> [] | Some v \<Rightarrow> v) \<noteq> ''utf-8''
               then Some (st\<lparr>resp := ctx_Error ''invalid charset'' 400\<rparr>)
               else post_payload env False req st)
            else Some (st\<lparr>resp := ctx_Error ''invalid media type'' 400\<rparr>)))
     else Some (st\<lparr>resp := ctx_Error ''error'' 405\<rparr>))"

text \<open>
  The \<open>charset\<close> parameter as the handler reads it, and the media types the POST
  branch goes on with.
\<close>

definition charset_of :: "(string \<rightharpoonup> string) \<Rightarrow> string" where
  "charset_of params = (case params ''charset'' of None \<Rightarrow> [] | Some v \<Rightarrow> v)"

definition accepted_media :: "polling_env \<Rightarrow> string \<Rightarrow> (string \<rightharpoonup> string) \<Rightarrow> bool" where
  "accepted_media env mediatype params =
    (mediatype = ''application/octet-stream'' \<or>
     (mediatype = ''text/plain'' \<and> ToLower env (charset_of params) = ''utf-8''))"

text \<open>Status, content type and body of the response a call left, if it returned.\<close>

definition shown :: "handler_state option \<Rightarrow> (nat \<times> string \<times> bytes) option" where
  "shown r = map_option (\<lambda>st'. (statusCode (resp st'), contentType (resp st'), body (resp st'))) r"

text \<open>
  A sample environment. The parsers and decoders are tables of the inputs used below.
  \<open>WriteTo\<close> gives the textual frame \<open><length>:<type_digit><payload>\<close> of a
  Message with five bytes of payload (length 6, type digit 4), as the sample packets
  are; \<open>WriteTo2\<close> is a stand-in that marks the binary encoder. \<open>json_Encode\<close> is
  what \<open>Encode\<close> writes for a string none of whose characters JSON escapes: the
  string between double quotes, then a newline.
\<close>

definition sample_ParseRequestURI :: "string \<Rightarrow> error + (string \<Rightarrow> string)" where
  "sample_ParseRequestURI uri =
    (if uri = ''/engine.io/?EIO=3&transport=polling&sid=s1&j=0&b64=1''
     then Inr (\<lambda>k. if k = ''EIO'' then ''3'' else if k = ''transport'' then ''polling''
                    else if k = ''sid'' then ''s1'' else if k = ''j'' then ''0''
                    else if k = ''b64'' then ''1'' else [])
     else if uri = ''/engine.io/?EIO=3&transport=polling&sid=s1&b64=1''
     then Inr (\<lambda>k. if k = ''EIO'' then ''3'' else if k = ''transport'' then ''polling''
                    else if k = ''sid'' then ''s1'' else if k = ''b64'' then ''1'' else [])
     else if uri = ''/engine.io/?EIO=3&transport=polling&sid=s1''
     then Inr (\<lambda>k. if k = ''EIO'' then ''3'' else if k = ''transport'' then ''polling''
                    else if k = ''sid'' then ''s1'' else [])
     else Inl (GoError ''invalid URI for request''))"

definition sample_ParseMediaType :: "string \<Rightarrow> error + string \<times> (string \<rightharpoonup> string)" where
  "sample_ParseMediaType h =
    (if h = ''text/plain; charset=UTF-8'' then Inr (''text/plain'', [''charset'' \<mapsto> ''UTF-8''])
     else if h = ''text/plain; charset=latin1''
     then Inr (''text/plain'', [''charset'' \<mapsto> ''latin1''])
     else if h = ''application/octet-stream'' then Inr (''application/octet-stream'', Map.empty)
     else if h = ''application/json'' then Inr (''application/json'', Map.empty)
     else Inl (GoError ''mime: no media type''))"

definition sample_ReadFrom :: "bool \<Rightarrow> bytes \<Rightarrow> error + Packet list" where
  "sample_ReadFrom xhr2 b =
    (if \<not> xhr2 \<and> b = ''6:4hello6:4world''
     then Inr [\<lparr>msgType = MessageTypeString, pktType = PacketTypeMessage, data = ''hello''\<rparr>,
               \<lparr>msgType = MessageTypeString, pktType = PacketTypeMessage, data = ''world''\<rparr>]
     else Inl (GoError ''payload invalid length''))"

fun sample_Error_text :: "error \<Rightarrow> string" where
  "sample_Error_text (GoError m) = m"
| "sample_Error_text ErrPollingConnClosed = ''polling connection closed''"
| "sample_Error_text ErrInvalidEvent = ''invalid event''"
| "sample_Error_text ErrorNamespaceUnavaialble = ''namespace unavailable''"
| "sample_Error_text ErrUnknownPacket = ''unknown packet''"

definition sample_polling_env :: polling_env where
  "sample_polling_env =
    \<lparr>isClosed = False,
     ReadPacketOut =
       Some (Inr \<lparr>msgType = MessageTypeString, pktType = PacketTypeMessage, data = ''hello''\<rparr>),
     ParseRequestURI = sample_ParseRequestURI,
     ParseMediaType = sample_ParseMediaType,
     ToLower = (\<lambda>s. if s = ''UTF-8'' then ''utf-8'' else s),
     ReadFrom = sample_ReadFrom,
     select_at = (\<lambda>i. SendIn),
     WriteTo = (\<lambda>p. (''6:4'' @ data p, None)),
     WriteTo2 = (\<lambda>p. (''binary:'' @ data p, None)),
     json_Encode = (\<lambda>s. Inr ([CHR 0x22] @ s @ [CHR 0x22, CHR 0x0A])),
     Error_text = sample_Error_text\<rparr>"

definition fresh_state :: handler_state where
  "fresh_state =
    \<lparr>resp = \<lparr>statusCode = 200, contentType = ''text/plain; charset=utf-8'', body = []\<rparr>,
     sent_in = [], logged = []\<rparr>"

definition get_request :: "string \<Rightarrow> Request" where
  "get_request uri = \<lparr>Method = ''GET'', RequestURI = uri, ContentType = [], Body = []\<rparr>"

definition post_request :: "string \<Rightarrow> bytes \<Rightarrow> Request" where
  "post_request ct b =
    \<lparr>Method = ''POST'', RequestURI = ''/engine.io/'', ContentType = ct, Body = b\<rparr>"

definition hello_pkt :: Packet where
  "hello_pkt = \<lparr>msgType = MessageTypeString, pktType = PacketTypeMessage, data = ''hello''\<rparr>"

definition world_pkt :: Packet where
  "world_pkt = \<lparr>msgType = MessageTypeString, pktType = PacketTypeMessage, data = ''world''\<rparr>"

definition closing_env :: polling_env where
  "closing_env = sample_polling_env\<lparr>select_at := (\<lambda>i. if i = 1 then RecvClosed else SendIn)\<rparr>"

text \<open>
  Modelled from the spec: the JSONP frame of section 4.1, "JSONP wraps the textual
  encoding in \<open>___eio[<index>]("<escaped>");\<close> with the payload JSON-encoded as a string
  literal". \<open>escaped\<close> is the payload with the JSON string escapes applied, so that
  the two quotes of the frame are those of the string literal.
\<close>

definition spec_JSONP :: "string \<Rightarrow> string \<Rightarrow> string" where
  "spec_JSONP index escaped = ''___eio['' @ index @ '']('' @ [CHR 0x22] @ escaped @ [CHR 0x22] @ '');''"

section \<open>Socket.IO layer: the server's packet handler\<close>

text \<open>
  Modelled from the spec: the socket.io \<open>PacketType\<close> and its constants are declared
  outside the sources at hand. \<open>process\<close> compares packet types with \<open>>\<close>, so the
  type is numeric; section 6 of the specification gives the digits Connect=0,
  Disconnect=1, Event=2, Ack=3, Error=4, BinaryEvent=5, BinaryAck=6.
\<close>

type_synonym sio_PacketType = nat

definition PacketTypeConnect :: sio_PacketType where "PacketTypeConnect = 0"
definition PacketTypeDisconnect :: sio_PacketType where "PacketTypeDisconnect = 1"
definition PacketTypeEvent :: sio_PacketType where "PacketTypeEvent = 2"
definition PacketTypeAck :: sio_PacketType where "PacketTypeAck = 3"
definition PacketTypeError :: sio_PacketType where "PacketTypeError = 4"
definition PacketTypeBinaryEvent :: sio_PacketType where "PacketTypeBinaryEvent = 5"
definition PacketTypeBinaryAck :: sio_PacketType where "PacketTypeBinaryAck = 6"

text \<open>
  The \<open>Data\<close> field is an \<open>interface{}\<close>: \<open>nil\<close>, the \<open>[]interface{}\<close> that
  \<open>process\<close> stores for an ack, or whatever the decoder left there. \<open>'v\<close> is the type
  of Go values.
\<close>

datatype 'v packet_data = DataNil | DataValues "'v list" | DataRaw 'v

text \<open>
  Modelled from the spec: the socket.io \<open>Packet\<close> struct is declared outside the
  sources at hand. Section 3 of the specification gives \<open>{type, namespace, id: optional
  int, attachments, data}\<close>; \<open>process\<close> uses \<open>Type\<close>, \<open>Namespace\<close>, \<open>ID\<close> (a pointer,
  \<open>nil\<close> when the packet has no id) and \<open>Data\<close>.
\<close>

record 'v sio_Packet =
  Type :: sio_PacketType
  Namespace :: string
  ID :: "nat option"
  Data :: "'v packet_data"

text \<open>\<open>reflect.Value\<close> wraps a Go value, and \<open>Interface\<close> gives it back.\<close>

datatype 'v reflect_Value = ValueOf 'v

fun Interface :: "'v reflect_Value \<Rightarrow> 'v" where
  "Interface (ValueOf x) = x"

type_synonym nsp_ref = nat

text \<open>The second argument of \<open>onError\<close> is an \<open>interface{}\<close>: an error or a packet's data.\<close>

datatype 'v onError_arg = OfError error | OfData "'v packet_data"

text \<open>
  The calls \<open>process\<close> makes on the socket, its decoder and the namespace, all of them
  code outside the sources at hand.
\<close>

datatype 'v sio_call =
    Call_attachnsp string
  | Call_detachnsp string
  | Call_EmitError string string
  | Call_ParseData "'v sio_Packet"
  | Call_fireEvent nsp_ref string bytes "bytes list"
  | Call_fireAck nsp_ref nat bytes "bytes list"
  | Call_onError string "'v onError_arg"
  | Call_ack "'v sio_Packet"

text \<open>
  What those calls return: \<open>attachnsp\<close> gives the namespace or \<open>nil\<close>; \<open>ParseData\<close>
  gives the event name, the data and the binary attachments, or an error; \<open>fireEvent\<close>
  gives the handler's return values (a slice that may be \<open>nil\<close>) or an error; \<open>ack\<close>
  may fail. \<open>has_onError\<close> says whether \<open>sock.onError\<close> is set.
\<close>

record 'v sio_env =
  attachnsp :: "string \<Rightarrow> nsp_ref option"
  ParseData :: "'v sio_Packet \<Rightarrow> error + string \<times> bytes \<times> bytes list"
  fireEvent :: "nsp_ref \<Rightarrow> string \<Rightarrow> bytes \<Rightarrow> bytes list \<Rightarrow> error + 'v reflect_Value list option"
  ack_reply :: "'v sio_Packet \<Rightarrow> error option"
  has_onError :: bool
  sio_Error_text :: "error \<Rightarrow> string"

text \<open>The recurring \<open>if sock.onError != nil { sock.onError(p.Namespace, x) }\<close>.\<close>

definition report ::
  "'v sio_env \<Rightarrow> string \<Rightarrow> 'v onError_arg \<Rightarrow> 'v sio_call list \<Rightarrow> 'v sio_call list"
where
  "report env nsp x tr = (if has_onError env then tr @ [Call_onError nsp x] else tr)"

text \<open>The data stored in the packet before it is acknowledged.\<close>

definition ack_data :: "'v reflect_Value list option \<Rightarrow> 'v packet_data" where
  "ack_data v = (case v of None \<Rightarrow> DataNil | Some vs \<Rightarrow> DataValues (map Interface vs))"

definition process :: "'v sio_env \<Rightarrow> 'v sio_Packet \<Rightarrow> 'v sio_call list \<Rightarrow> 'v sio_call list"
where
  "process env p tr =
    (let tr0 = tr @ [Call_attachnsp (Namespace p)]
     in case attachnsp env (Namespace p) of
          None \<Rightarrow>
            (if Type p > PacketTypeDisconnect
             then tr0 @ [Call_EmitError (Namespace p)
                           (sio_Error_text env ErrorNamespaceUnavaialble)]
             else tr0)
        | Some nsp \<Rightarrow>
           (if Type p = PacketTypeConnect then tr0
            else if Type p = PacketTypeDisconnect then tr0 @ [Call_detachnsp (Namespace p)]
            else if Type p = PacketTypeEvent \<or> Type p = PacketTypeBinaryEvent then
              (let tr1 = tr0 @ [Call_ParseData p]
               in case ParseData env p of
                    Inl err \<Rightarrow> report env (Namespace p) (OfError err) tr1
                  | Inr (event, dat, bin) \<Rightarrow>
                     (if event = [] then tr1
                      else
                        (let tr2 = tr1 @ [Call_fireEvent nsp event dat bin]
                         in case fireEvent env nsp event dat bin of
                              Inl err \<Rightarrow> report env (Namespace p) (OfError err) tr2
                            | Inr v \<Rightarrow>
                               (case ID p of
                                  None \<Rightarrow> tr2
                                | Some i \<Rightarrow>
                                   (let p' = p\<lparr>Data := ack_data v\<rparr>;
                                        tr3 = tr2 @ [Call_ack p']
                                    in case ack_reply env p' of
                                         None \<Rightarrow> tr3
                                       | Some err \<Rightarrow>
                                           report env (Namespace p) (OfError err) tr3)))))
            else if Type p = PacketTypeAck \<or> Type p = PacketTypeBinaryAck then
              (case ID p of
                 None \<Rightarrow> tr0
               | Some i \<Rightarrow>
                  (let tr1 = tr0 @ [Call_ParseData p]
                   in case ParseData env p of
                        Inl err \<Rightarrow> report env (Namespace p) (OfError err) tr1
                      | Inr (event, dat, bin) \<Rightarrow> tr1 @ [Call_fireAck nsp i dat bin]))
            else if Type p = PacketTypeError
            then report env (Namespace p) (OfData (Data p)) tr0
            else report env (Namespace p) (OfError ErrUnknownPacket) tr0))"

text \<open>The packets acknowledged, and whether a call is an event or ack handler firing.\<close>

fun acked :: "'v sio_call list \<Rightarrow> 'v sio_Packet list" where
  "acked [] = []"
| "acked (Call_ack p # tr) = p # acked tr"
| "acked (_ # tr) = acked tr"

fun is_fire :: "'v sio_call \<Rightarrow> bool" where
  "is_fire (Call_fireEvent n e d b) = True"
| "is_fire (Call_fireAck n i d b) = True"
| "is_fire _ = False"

fun is_EmitError :: "'v sio_call \<Rightarrow> bool" where
  "is_EmitError (Call_EmitError n m) = True"
| "is_EmitError _ = False"

fun is_onError :: "'v sio_call \<Rightarrow> bool" where
  "is_onError (Call_onError n x) = True"
| "is_onError _ = False"


text \<open>
  A sample socket: the namespace \<open>/\<close> is attached; the event \<open>add\<close> has a handler
  that returns one value, \<open>fail\<close> one that returns an error and \<open>log\<close> one that
  returns nothing. \<open>sample_ParseData\<close> is a table of the packets used below.
\<close>

definition sample_ParseData :: "int sio_Packet \<Rightarrow> error + string \<times> bytes \<times> bytes list" where
  "sample_ParseData p =
    (if Data p = DataValues [1, 1, 2] then Inr (''add'', ''[1,2]'', [])
     else if Data p = DataValues [2] then Inr (''fail'', ''[]'', [])
     else if Data p = DataValues [3] then Inr (''log'', ''[]'', [])
     else Inl (GoError ''invalid character''))"

definition sample_fireEvent ::
  "nsp_ref \<Rightarrow> string \<Rightarrow> bytes \<Rightarrow> bytes list \<Rightarrow> error + int reflect_Value list option"
where
  "sample_fireEvent n event dat bin =
    (if event = ''add'' then Inr (Some [ValueOf 3])
     else if event = ''fail'' then Inl (GoError ''handler failed'')
     else Inr None)"

definition sample_sio_env :: "int sio_env" where
  "sample_sio_env =
    \<lparr>attachnsp = (\<lambda>n. if n = ''/'' then Some 0 else None),
     ParseData = sample_ParseData,
     fireEvent = sample_fireEvent,
     ack_reply = (\<lambda>p. None),
     has_onError = True,
     sio_Error_text = sample_Error_text\<rparr>"

definition event_pkt :: "string \<Rightarrow> int list \<Rightarrow> int sio_Packet" where
  "event_pkt n xs = \<lparr>Type = PacketTypeEvent, Namespace = n, ID = Some 1, Data = DataValues xs\<rparr>"

section \<open>Upgrade\<close>



text \<open>
  C2. When the candidate conn yields a Ping, the Pong (the same packet with its type
  changed, so the same message type and payload) is written, the current conn pauses
  and the candidate then yields an Upgrade: the socket's conn becomes the candidate and
  its transport the new name, both stored between \<open>Lock\<close> and \<open>Unlock\<close>, and
  \<open>EventUpgrade\<close> is fired afterwards with the Upgrade packet's message type and
  payload. The whole trace of the call is given.
\<close>

theorem upgrade_success_swaps_conn:
  assumes "first_read env = Inr p" and "pktType p = PacketTypePing"
    and "pong_write env = None" and "pause_reply env = None"
    and "second_read env = Inr q" and "pktType q = PacketTypeUpgrade"
  shows "upgrade env t nc (s, tr) =
          (s\<lparr>Conn := nc, transport := t\<rparr>,
           tr @ [ConnCall nc (SetReadDeadline (readTimeout s)),
                 ConnCall nc ReadPacket,
                 ConnCall nc (SetWriteDeadline (writeTimeout s)),
                 ConnCall nc (WritePacket \<lparr>msgType = msgType p, pktType = PacketTypePong,
                                            data = data p\<rparr>),
                 RLock, RUnlock,
                 ConnCall (Conn s) Pause,
                 ConnCall nc (SetReadDeadline (readTimeout s)),
                 ConnCall nc ReadPacket,
                 Lock, StoreConn nc, StoreTransport t, Unlock,
                 Fire EventUpgrade (msgType q) (data q)])"
  using assms by (simp add: upgrade_def Let_def)

theorem upgrade_success_swaps_conn_witness:
  "first_read good_replies = Inr probe_ping \<and> pktType probe_ping = PacketTypePing \<and>
   pong_write good_replies = None \<and> pause_reply good_replies = None \<and>
   second_read good_replies = Inr upgrade_pkt \<and> pktType upgrade_pkt = PacketTypeUpgrade \<and>
   upgrade good_replies ''websocket'' 2 (sample_socket, []) =
     (\<lparr>Conn = 2, readTimeout = 60, writeTimeout = 25, transport = ''websocket'',
        once_done = False\<rparr>,
      [ConnCall 2 (SetReadDeadline 60), ConnCall 2 ReadPacket,
       ConnCall 2 (SetWriteDeadline 25),
       ConnCall 2 (WritePacket \<lparr>msgType = MessageTypeString, pktType = PacketTypePong,
                                 data = ''probe''\<rparr>),
       RLock, RUnlock, ConnCall 1 Pause,
       ConnCall 2 (SetReadDeadline 60), ConnCall 2 ReadPacket,
       Lock, StoreConn 2, StoreTransport ''websocket'', Unlock,
       Fire EventUpgrade MessageTypeString []])"
proof -
  have h: "first_read good_replies = Inr probe_ping" "pktType probe_ping = PacketTypePing"
    "pong_write good_replies = None" "pause_reply good_replies = None"
    "second_read good_replies = Inr upgrade_pkt" "pktType upgrade_pkt = PacketTypeUpgrade"
    by (simp_all add: good_replies_def probe_ping_def upgrade_pkt_def)
  from upgrade_success_swaps_conn [OF h, of "''websocket''" 2 sample_socket "[]"] h
  show ?thesis
    by (simp add: sample_socket_def probe_ping_def upgrade_pkt_def)
qed

section \<open>Close\<close>

lemma Close_done: "once_done s \<Longrightarrow> Close r (s, tr) = (None, s, tr)"
  by (simp add: Close_def)

lemma Close_times_done:
  "once_done s \<Longrightarrow> Close_times n reply (s, tr) = (replicate n None, s, tr)"
  by (induction n) (simp_all add: Close_done replicate_append_same)

lemma Close_times_fresh:
  "\<not> once_done s \<Longrightarrow>
   Close_times (Suc n) reply (s, tr) =
     (reply 0 # replicate n None, s\<lparr>once_done := True\<rparr>,
      tr @ [EmitterClose, ConnCall (Conn s) CloseConn])"
proof (induction n)
  case 0
  then show ?case by (simp add: Close_def)
next
  case (Suc n)
  then show ?case by (simp add: Close_done replicate_append_same)
qed

text \<open>
  C3. \<open>Close\<close> is idempotent: \<open>n \<ge> 1\<close> calls on a socket that was not closed before
  add exactly one \<open>emitter.close\<close> and one \<open>Close\<close> of the conn to the trace; the
  first call returns what the conn's \<open>Close\<close> returned, every later call returns
  \<open>nil\<close>, and any further call changes nothing.
\<close>

theorem Close_idempotent:
  assumes "\<not> once_done s" and "1 \<le> n"
  shows "(case Close_times n reply (s, tr) of
            (rs, s', tr') \<Rightarrow>
              added tr tr' = [EmitterClose, ConnCall (Conn s) CloseConn] \<and>
              count_list tr' (ConnCall (Conn s) CloseConn)
                = Suc (count_list tr (ConnCall (Conn s) CloseConn)) \<and>
              count_list tr' EmitterClose = Suc (count_list tr EmitterClose) \<and>
              rs = reply 0 # replicate (n - 1) None \<and>
              s' = s\<lparr>once_done := True\<rparr> \<and>
              (\<forall>r. Close r (s', tr') = (None, s', tr')))"
proof -
  from assms(2) obtain m where n: "n = Suc m" by (cases n) auto
  show ?thesis
    unfolding n using Close_times_fresh [OF assms(1), of m reply tr]
    by (simp add: added_def Close_def)
qed

theorem Close_idempotent_witness:
  "\<not> once_done sample_socket \<and> (1::nat) \<le> 3 \<and>
   (case Close_times 3 (\<lambda>i. None) (sample_socket, []) of
      (rs, s', tr') \<Rightarrow>
        tr' = [EmitterClose, ConnCall 1 CloseConn] \<and> rs = [None, None, None] \<and>
        once_done s' \<and> Close None (s', tr') = (None, s', tr'))"
  using Close_idempotent
    [where s = sample_socket and n = 3 and reply = "\<lambda>i. None" and tr = "[]"]
  by (auto simp: sample_socket_def added_def numeral_3_eq_3 split: prod.splits)

section \<open>emit\<close>

text \<open>
  C4, as stated, fails: with a valid event and an argument that \<open>json.Marshal\<close>
  rejects, \<open>emit\<close> returns the marshalling error and submits no packet.
\<close>

theorem emit_unmarshalable_counterexample:
  "emit sample_emit_env EventMessage MessageTypeString (ArgOther GoChan) [] =
     (Some (GoError ''json: unsupported type: chan int''), [])"
  by (simp add: emit_def sample_emit_env_def)

text \<open>
  C4, amended. Any event other than Open, Message, Close, Ping and Pong (so also
  \<open>EventError\<close> and \<open>EventUpgrade\<close>) returns \<open>ErrInvalidEvent\<close> and submits
  nothing. For the five mapped events the submitted packet has the mapped type, the
  given message type, and as payload the bytes of a byte slice unchanged, the bytes of
  a string, or the JSON encoding of any other value when \<open>json.Marshal\<close> succeeds;
  when \<open>json.Marshal\<close> fails its error is returned and nothing is submitted.
\<close>

theorem emit_event_and_payload:
  "(ev \<notin> {EventOpen, EventMessage, EventClose, EventPing, EventPong} \<longrightarrow>
      emit env ev mt a tr = (Some ErrInvalidEvent, tr)) \<and>
   ((ev, pt) \<in> {(EventOpen, PacketTypeOpen), (EventMessage, PacketTypeMessage),
                 (EventClose, PacketTypeClose), (EventPing, PacketTypePing),
                 (EventPong, PacketTypePong)} \<longrightarrow>
      emit env ev mt (ArgBytes b) tr =
        (submit_reply env, tr @ [EmitterSubmit \<lparr>msgType = mt, pktType = pt, data = b\<rparr>]) \<and>
      emit env ev mt (ArgString str) tr =
        (submit_reply env, tr @ [EmitterSubmit \<lparr>msgType = mt, pktType = pt, data = str\<rparr>]) \<and>
      (\<forall>v d. json_Marshal env v = Inr d \<longrightarrow>
         emit env ev mt (ArgOther v) tr =
           (submit_reply env, tr @ [EmitterSubmit \<lparr>msgType = mt, pktType = pt, data = d\<rparr>])) \<and>
      (\<forall>v e. json_Marshal env v = Inl e \<longrightarrow> emit env ev mt (ArgOther v) tr = (Some e, tr)))"
  by (cases ev) (auto simp: emit_def)

theorem emit_event_and_payload_witness:
  "EventUpgrade \<notin> {EventOpen, EventMessage, EventClose, EventPing, EventPong} \<and>
   emit sample_emit_env EventUpgrade MessageTypeString (ArgString ''hi'') [] =
     (Some ErrInvalidEvent, []) \<and>
   (EventMessage, PacketTypeMessage) \<in>
     {(EventOpen, PacketTypeOpen), (EventMessage, PacketTypeMessage),
      (EventClose, PacketTypeClose), (EventPing, PacketTypePing),
      (EventPong, PacketTypePong)} \<and>
   emit sample_emit_env EventMessage MessageTypeString (ArgString ''hi'') [] =
     (None, [EmitterSubmit \<lparr>msgType = MessageTypeString, pktType = PacketTypeMessage,
                             data = ''hi''\<rparr>]) \<and>
   json_Marshal sample_emit_env (GoBool True) = Inr ''true'' \<and>
   emit sample_emit_env EventMessage MessageTypeString (ArgOther (GoBool True)) [] =
     (None, [EmitterSubmit \<lparr>msgType = MessageTypeString, pktType = PacketTypeMessage,
                             data = ''true''\<rparr>]) \<and>
   json_Marshal sample_emit_env GoChan = Inl (GoError ''json: unsupported type: chan int'') \<and>
   emit sample_emit_env EventMessage MessageTypeString (ArgOther GoChan) [] =
     (Some (GoError ''json: unsupported type: chan int''), [])"
proof -
  have m: "json_Marshal sample_emit_env (GoBool True) = Inr ''true''"
    "json_Marshal sample_emit_env GoChan = Inl (GoError ''json: unsupported type: chan int'')"
    "submit_reply sample_emit_env = None"
    by (simp_all add: sample_emit_env_def)
  from emit_event_and_payload
         [of EventUpgrade sample_emit_env MessageTypeString "ArgString ''hi''" "[]"]
       emit_event_and_payload
         [of EventMessage sample_emit_env MessageTypeString _ "[]" PacketTypeMessage
             _ "''hi''"]
       m
  show ?thesis by simp
qed

section \<open>Polling conn: requests on a closed conn\<close>

text \<open>
  C9, as stated, fails: a GET arriving at a conn whose closed signal has fired is
  answered with 400, not 404.
\<close>

theorem closed_conn_counterexample:
  "HandleFastHTTP (sample_polling_env\<lparr>isClosed := True\<rparr>) (get_request ''/engine.io/'') fresh_state
     = Some (fresh_state\<lparr>resp := \<lparr>statusCode = 400, contentType = ''text/plain; charset=utf-8'',
                                    body = ''polling connection closed''\<rparr>\<rparr>)"
  by (simp add: HandleFastHTTP_def sample_polling_env_def ctx_Error_def)

text \<open>
  C9, amended. Every request arriving at a polling conn whose closed signal has already
  fired is answered with status 400 and the text of \<open>ErrPollingConnClosed\<close>,
  whatever its method; nothing else is done.
\<close>

theorem closed_conn_bad_request:
  assumes "isClosed env"
  shows "HandleFastHTTP env req st =
           Some (st\<lparr>resp := ctx_Error (Error_text env ErrPollingConnClosed) 400\<rparr>) \<and>
         map_option (\<lambda>st'. statusCode (resp st')) (HandleFastHTTP env req st) = Some 400"
  using assms by (simp add: HandleFastHTTP_def ctx_Error_def)

theorem closed_conn_bad_request_witness:
  "isClosed (sample_polling_env\<lparr>isClosed := True\<rparr>) \<and>
   map_option (\<lambda>st'. statusCode (resp st'))
     (HandleFastHTTP (sample_polling_env\<lparr>isClosed := True\<rparr>)
        (post_request ''text/plain; charset=UTF-8'' ''6:4hello6:4world'') fresh_state) = Some 400"
proof -
  have c: "isClosed (sample_polling_env\<lparr>isClosed := True\<rparr>)" by simp
  from closed_conn_bad_request [OF c] c show ?thesis by (simp add: ctx_Error_def)
qed

section \<open>Polling conn: POST\<close>

text \<open>
  C7. A POST whose Content-Type cannot be parsed, or is \<open>text/plain\<close> with a charset
  parameter that is not \<open>utf-8\<close> after lower-casing (an absent one reads as empty), or
  names any media type other than \<open>application/octet-stream\<close> and \<open>text/plain\<close>,
  is answered with status 400, and no packet is sent on \<open>in\<close>.
\<close>

theorem post_bad_content_type:
  assumes "Method req = ''POST''"
    and "case ParseMediaType env (ContentType req) of
           Inl err \<Rightarrow> True
         | Inr (mediatype, params) \<Rightarrow>
             (mediatype = ''text/plain'' \<and> ToLower env (charset_of params) \<noteq> ''utf-8'') \<or>
             (mediatype \<noteq> ''application/octet-stream'' \<and> mediatype \<noteq> ''text/plain'')"
  shows "map_option (\<lambda>st'. (statusCode (resp st'), sent_in st')) (HandleFastHTTP env req st)
           = Some (400, sent_in st)"
  using assms
  by (auto simp: HandleFastHTTP_def ctx_Error_def charset_of_def split: sum.splits prod.splits)

theorem post_bad_content_type_witness:
  "Method (post_request ''text/plain; charset=latin1'' ''6:4hello6:4world'') = ''POST'' \<and>
   ParseMediaType sample_polling_env ''text/plain; charset=latin1''
     = Inr (''text/plain'', [''charset'' \<mapsto> ''latin1'']) \<and>
   ToLower sample_polling_env (charset_of [''charset'' \<mapsto> ''latin1'']) \<noteq> ''utf-8'' \<and>
   map_option (\<lambda>st'. (statusCode (resp st'), sent_in st'))
     (HandleFastHTTP sample_polling_env
        (post_request ''text/plain; charset=latin1'' ''6:4hello6:4world'') fresh_state)
     = Some (400, []) \<and>
   ParseMediaType sample_polling_env ''application/json'' = Inr (''application/json'', Map.empty) \<and>
   map_option (\<lambda>st'. (statusCode (resp st'), sent_in st'))
     (HandleFastHTTP sample_polling_env
        (post_request ''application/json'' ''6:4hello6:4world'') fresh_state)
     = Some (400, []) \<and>
   ParseMediaType sample_polling_env ''text/'' = Inl (GoError ''mime: no media type'') \<and>
   map_option (\<lambda>st'. (statusCode (resp st'), sent_in st'))
     (HandleFastHTTP sample_polling_env (post_request ''text/'' ''6:4hello6:4world'') fresh_state)
     = Some (400, [])"
proof -
  have m: "Method (post_request ct b) = ''POST''" "ContentType (post_request ct b) = ct" for ct b
    by (simp_all add: post_request_def)
  have p: "ParseMediaType sample_polling_env ''text/plain; charset=latin1''
             = Inr (''text/plain'', [''charset'' \<mapsto> ''latin1''])"
    "ParseMediaType sample_polling_env ''application/json'' = Inr (''application/json'', Map.empty)"
    "ParseMediaType sample_polling_env ''text/'' = Inl (GoError ''mime: no media type'')"
    "ToLower sample_polling_env (charset_of [''charset'' \<mapsto> ''latin1'']) \<noteq> ''utf-8''"
    by (simp_all add: sample_polling_env_def sample_ParseMediaType_def charset_of_def)
  have s: "sent_in fresh_state = []" by (simp add: fresh_state_def)
  from post_bad_content_type
         [of "post_request ''text/plain; charset=latin1'' ''6:4hello6:4world''"
             sample_polling_env fresh_state]
       post_bad_content_type
         [of "post_request ''application/json'' ''6:4hello6:4world''"
             sample_polling_env fresh_state]
       post_bad_content_type
         [of "post_request ''text/'' ''6:4hello6:4world''" sample_polling_env fresh_state]
       m p s
  show ?thesis by simp
qed

text \<open>
  C6, as stated, fails: a POST with an accepted media type whose body does not decode
  is answered with 500, neither 404 nor 200.
\<close>

theorem post_undecodable_counterexample:
  "HandleFastHTTP sample_polling_env (post_request ''text/plain; charset=UTF-8'' ''6:4hel'')
     fresh_state
     = Some (fresh_state\<lparr>resp := \<lparr>statusCode = 500, contentType = ''text/plain; charset=utf-8'',
                                    body = ''payload invalid length''\<rparr>\<rparr>)"
  by (simp add: HandleFastHTTP_def post_payload_def sample_polling_env_def post_request_def
        sample_ParseMediaType_def sample_ReadFrom_def ctx_Error_def)

lemma push_loop_all:
  "(\<forall>j<length pks. sel (i + j) = SendIn) \<Longrightarrow> push_loop sel i pks sent = Some (True, sent @ pks)"
proof (induction pks arbitrary: i sent)
  case Nil
  then show ?case by simp
next
  case (Cons pk pks)
  from Cons.prems have h: "sel i = SendIn" by (metis add.right_neutral length_greater_0_conv list.distinct(1))
  have "\<forall>j<length pks. sel (Suc i + j) = SendIn"
    using Cons.prems by (metis Suc_less_eq add_Suc_shift length_Cons)
  with Cons.IH [of "Suc i" "sent @ [pk]"] h show ?case by simp
qed

lemma push_loop_closed:
  "k < length pks \<Longrightarrow> (\<forall>j<k. sel (i + j) = SendIn) \<Longrightarrow> sel (i + k) = RecvClosed \<Longrightarrow>
   push_loop sel i pks sent = Some (False, sent @ take k pks)"
proof (induction pks arbitrary: i k sent)
  case Nil
  then show ?case by simp
next
  case (Cons pk pks)
  show ?case
  proof (cases k)
    case 0
    with Cons.prems show ?thesis by simp
  next
    case (Suc k')
    with Cons.prems have h: "sel i = SendIn" by (metis add.right_neutral zero_less_Suc)
    have a: "\<forall>j<k'. sel (Suc i + j) = SendIn"
      using Cons.prems Suc by (metis Suc_less_eq add_Suc_shift)
    have b: "sel (Suc i + k') = RecvClosed" using Cons.prems Suc by simp
    have c: "k' < length pks" using Cons.prems Suc by simp
    from Cons.IH [OF c a b, of "sent @ [pk]"] h Suc show ?thesis by simp
  qed
qed

text \<open>
  C6, amended. For a POST with an accepted media type on a conn that is not closed on
  entry, the body is decoded in xhr2 form exactly when the media type is
  \<open>application/octet-stream\<close>. When decoding fails the answer is 500. When it
  succeeds the packets are sent on \<open>in\<close> in order: if every \<open>select\<close> takes the send
  branch, all of them are sent and the answer is 200; if the \<open>select\<close> for packet
  \<open>k\<close> is the first to take the closed branch, exactly the first \<open>k\<close> packets have
  been sent and the answer is 404.
\<close>

theorem post_pushes_packets:
  assumes "\<not> isClosed env" and "Method req = ''POST''"
    and "ParseMediaType env (ContentType req) = Inr (mediatype, params)"
    and "accepted_media env mediatype params"
  shows "(ReadFrom env (mediatype = ''application/octet-stream'') (Body req) = Inl err \<longrightarrow>
            HandleFastHTTP env req st = Some (st\<lparr>resp := ctx_Error (Error_text env err) 500\<rparr>)) \<and>
         (ReadFrom env (mediatype = ''application/octet-stream'') (Body req) = Inr pkts \<longrightarrow>
            ((\<forall>i<length pkts. select_at env i = SendIn) \<longrightarrow>
               HandleFastHTTP env req st =
                 Some (st\<lparr>resp := ctx_Error ''OK'' 200, sent_in := sent_in st @ pkts\<rparr>)) \<and>
            (k < length pkts \<and> (\<forall>i<k. select_at env i = SendIn) \<and> select_at env k = RecvClosed \<longrightarrow>
               HandleFastHTTP env req st =
                 Some (st\<lparr>resp := ctx_Error ''closed'' 404, sent_in := sent_in st @ take k pkts\<rparr>)))"
proof -
  let ?x = "mediatype = ''application/octet-stream''"
  have H: "HandleFastHTTP env req st = post_payload env ?x req st"
    using assms by (auto simp: HandleFastHTTP_def accepted_media_def charset_of_def)
  show ?thesis
  proof (intro conjI impI)
    assume "ReadFrom env ?x (Body req) = Inl err"
    then show "HandleFastHTTP env req st = Some (st\<lparr>resp := ctx_Error (Error_text env err) 500\<rparr>)"
      by (simp add: H post_payload_def)
  next
    assume r: "ReadFrom env ?x (Body req) = Inr pkts"
      and a: "\<forall>i<length pkts. select_at env i = SendIn"
    from a have "push_loop (select_at env) 0 pkts (sent_in st) = Some (True, sent_in st @ pkts)"
      by (intro push_loop_all) simp
    with r show "HandleFastHTTP env req st =
                 Some (st\<lparr>resp := ctx_Error ''OK'' 200, sent_in := sent_in st @ pkts\<rparr>)"
      by (simp add: H post_payload_def)
  next
    assume r: "ReadFrom env ?x (Body req) = Inr pkts"
      and a: "k < length pkts \<and> (\<forall>i<k. select_at env i = SendIn) \<and> select_at env k = RecvClosed"
    from a have "push_loop (select_at env) 0 pkts (sent_in st)
                     = Some (False, sent_in st @ take k pkts)"
      by (intro push_loop_closed) simp_all
    with r show "HandleFastHTTP env req st =
                 Some (st\<lparr>resp := ctx_Error ''closed'' 404, sent_in := sent_in st @ take k pkts\<rparr>)"
      by (simp add: H post_payload_def)
  qed
qed

theorem post_pushes_packets_witness:
  "\<not> isClosed sample_polling_env \<and> \<not> isClosed closing_env \<and>
   Method (post_request ''text/plain; charset=UTF-8'' ''6:4hello6:4world'') = ''POST'' \<and>
   ParseMediaType sample_polling_env ''text/plain; charset=UTF-8''
     = Inr (''text/plain'', [''charset'' \<mapsto> ''UTF-8'']) \<and>
   accepted_media sample_polling_env ''text/plain'' [''charset'' \<mapsto> ''UTF-8''] \<and>
   ReadFrom sample_polling_env False ''6:4hello6:4world'' = Inr [hello_pkt, world_pkt] \<and>
   select_at sample_polling_env 0 = SendIn \<and> select_at sample_polling_env 1 = SendIn \<and>
   HandleFastHTTP sample_polling_env
     (post_request ''text/plain; charset=UTF-8'' ''6:4hello6:4world'') fresh_state
     = Some (fresh_state\<lparr>resp := ctx_Error ''OK'' 200, sent_in := [hello_pkt, world_pkt]\<rparr>) \<and>
   select_at closing_env 0 = SendIn \<and> select_at closing_env 1 = RecvClosed \<and>
   HandleFastHTTP closing_env
     (post_request ''text/plain; charset=UTF-8'' ''6:4hello6:4world'') fresh_state
     = Some (fresh_state\<lparr>resp := ctx_Error ''closed'' 404, sent_in := [hello_pkt]\<rparr>) \<and>
   ReadFrom sample_polling_env False ''6:4hel'' = Inl (GoError ''payload invalid length'') \<and>
   HandleFastHTTP sample_polling_env (post_request ''text/plain; charset=UTF-8'' ''6:4hel'')
     fresh_state
     = Some (fresh_state\<lparr>resp := ctx_Error ''payload invalid length'' 500\<rparr>)"
proof -
  have open_conn: "\<not> isClosed sample_polling_env" "\<not> isClosed closing_env"
    by (simp_all add: sample_polling_env_def closing_env_def)
  have req: "Method (post_request ct b) = ''POST''" "ContentType (post_request ct b) = ct"
    "Body (post_request ct b) = b" for ct b
    by (simp_all add: post_request_def)
  have media: "ParseMediaType sample_polling_env ''text/plain; charset=UTF-8''
                 = Inr (''text/plain'', [''charset'' \<mapsto> ''UTF-8''])"
    "ParseMediaType closing_env ''text/plain; charset=UTF-8''
                 = Inr (''text/plain'', [''charset'' \<mapsto> ''UTF-8''])"
    by (simp_all add: sample_polling_env_def closing_env_def sample_ParseMediaType_def)
  have acc: "accepted_media sample_polling_env ''text/plain'' [''charset'' \<mapsto> ''UTF-8'']"
    "accepted_media closing_env ''text/plain'' [''charset'' \<mapsto> ''UTF-8'']"
    by (simp_all add: accepted_media_def charset_of_def sample_polling_env_def closing_env_def)
  have dec: "ReadFrom sample_polling_env False ''6:4hello6:4world'' = Inr [hello_pkt, world_pkt]"
    "ReadFrom closing_env False ''6:4hello6:4world'' = Inr [hello_pkt, world_pkt]"
    "ReadFrom sample_polling_env False ''6:4hel'' = Inl (GoError ''payload invalid length'')"
    by (simp_all add: sample_polling_env_def closing_env_def sample_ReadFrom_def
          hello_pkt_def world_pkt_def)
  have sel: "\<forall>i<2. select_at sample_polling_env i = SendIn"
    "select_at closing_env 0 = SendIn" "select_at closing_env 1 = RecvClosed"
    by (simp_all add: sample_polling_env_def closing_env_def)
  have etext: "Error_text sample_polling_env (GoError m) = m" for m
    by (simp add: sample_polling_env_def)
  have st: "sent_in fresh_state = []" by (simp add: fresh_state_def)
  have ok: "HandleFastHTTP sample_polling_env
              (post_request ''text/plain; charset=UTF-8'' ''6:4hello6:4world'') fresh_state
            = Some (fresh_state\<lparr>resp := ctx_Error ''OK'' 200, sent_in := [hello_pkt, world_pkt]\<rparr>)"
    using post_pushes_packets
            [where req = "post_request ''text/plain; charset=UTF-8'' ''6:4hello6:4world''"
               and st = fresh_state and pkts = "[hello_pkt, world_pkt]",
             OF open_conn(1) req(1) _ acc(1)]
          media dec sel st
    by (simp add: req)
  have closed: "HandleFastHTTP closing_env
              (post_request ''text/plain; charset=UTF-8'' ''6:4hello6:4world'') fresh_state
            = Some (fresh_state\<lparr>resp := ctx_Error ''closed'' 404, sent_in := [hello_pkt]\<rparr>)"
    using post_pushes_packets
            [where req = "post_request ''text/plain; charset=UTF-8'' ''6:4hello6:4world''"
               and st = fresh_state and pkts = "[hello_pkt, world_pkt]" and k = 1,
             OF open_conn(2) req(1) _ acc(2)]
          media dec sel st
    by (simp add: req)
  have bad: "HandleFastHTTP sample_polling_env
               (post_request ''text/plain; charset=UTF-8'' ''6:4hel'') fresh_state
             = Some (fresh_state\<lparr>resp := ctx_Error ''payload invalid length'' 500\<rparr>)"
    using post_pushes_packets
            [where req = "post_request ''text/plain; charset=UTF-8'' ''6:4hel''"
               and st = fresh_state and err = "GoError ''payload invalid length''",
             OF open_conn(1) req(1) _ acc(1)]
          media dec etext
    by (simp add: req)
  have sel': "select_at sample_polling_env 0 = SendIn" "select_at sample_polling_env 1 = SendIn"
    by (simp_all add: sample_polling_env_def)
  from open_conn req media acc dec sel(2,3) sel' ok closed bad show ?thesis by simp
qed

section \<open>Polling conn: GET\<close>

text \<open>
  What the handler does meet on GET requests. For a GET on a conn that is not closed on
  entry, that obtains a packet and whose request URI parses, with the response status
  at 200 on entry (as it is for a fresh fasthttp response): the handler returns, sends
  nothing on \<open>in\<close>, leaves the status at 200, and sets the Content-Type by the query,
  \<open>j\<close> first: \<open>text/javascript; charset=UTF-8\<close> for a non-empty \<open>j\<close>, otherwise
  \<open>text/plain; charset=UTF-8\<close> with the textual encoding as body for \<open>b64=1\<close>,
  otherwise \<open>application/octet-stream\<close> with the binary encoding as body.
\<close>

lemma get_content_type_and_status:
  assumes "\<not> isClosed env" and "Method req = ''GET''"
    and "ReadPacketOut env = Some (Inr pkt)"
    and "ParseRequestURI env (RequestURI req) = Inr q"
    and "statusCode (resp st) = 200"
  shows "case HandleFastHTTP env req st of
           None \<Rightarrow> False
         | Some st' \<Rightarrow>
             sent_in st' = sent_in st \<and> statusCode (resp st') = 200 \<and>
             (q queryJSONP \<noteq> [] \<longrightarrow>
                contentType (resp st') = ''text/javascript; charset=UTF-8'') \<and>
             (q queryJSONP = [] \<and> q queryBase64 = ''1'' \<longrightarrow>
                contentType (resp st') = ''text/plain; charset=UTF-8'' \<and>
                body (resp st') = body (resp st) @ fst (WriteTo env pkt)) \<and>
             (q queryJSONP = [] \<and> q queryBase64 \<noteq> ''1'' \<longrightarrow>
                contentType (resp st') = ''application/octet-stream'' \<and>
                body (resp st') = body (resp st) @ fst (WriteTo2 env pkt))"
  using assms
  by (auto simp: HandleFastHTTP_def fastWriteJSONP_def fastWriteXHR_def fastWriteXHR2_def Let_def
           split: option.splits sum.splits prod.splits)

text \<open>
  The JSONP body, in general: on the same requests with a non-empty \<open>j\<close>, once the
  packet is encoded to \<open>buf\<close> and \<open>Encode\<close> has turned \<open>buf\<close> into \<open>enc\<close>, the
  handler appends \<open>enc\<close> between a second pair of double quotes.
\<close>

lemma get_jsonp_body:
  assumes "\<not> isClosed env" and "Method req = ''GET''"
    and "ReadPacketOut env = Some (Inr pkt)"
    and "ParseRequestURI env (RequestURI req) = Inr q" and "q queryJSONP \<noteq> []"
    and "WriteTo env pkt = (buf, None)" and "json_Encode env buf = Inr enc"
  shows "map_option (\<lambda>st'. body (resp st')) (HandleFastHTTP env req st) =
           Some (body (resp st) @ ''___eio['' @ q queryJSONP @ '']('' @ [CHR 0x22] @ enc @
                   [CHR 0x22] @ '');'')"
  using assms by (simp add: HandleFastHTTP_def fastWriteJSONP_def Let_def)

text \<open>
  C8. The handler chooses the Content-Type and the status as the claim says, but for a
  non-empty \<open>j\<close> it does not write the JSONP encoding. For the request
  \<open>GET /engine.io/?EIO=3&transport=polling&sid=s1&j=0&b64=1\<close>, with the Message
  \<open>hello\<close> as the packet read from \<open>out\<close>, the response has status 200 and
  Content-Type \<open>text/javascript; charset=UTF-8\<close> (JSONP wins over \<open>b64=1\<close>), and
  its body is \<open>___eio[0](\<close>, two double quotes, \<open>6:4hello\<close>, a double quote, a
  newline, a double quote, \<open>);\<close>: the string literal that \<open>Encode\<close> wrote, with its
  own quotes and its trailing newline, put between the quotes of the format string.
  The JSONP frame of the specification for this packet is \<open>___eio[0]("6:4hello");\<close>.
\<close>

theorem jsonp_body_doubly_quoted:
  "shown (HandleFastHTTP sample_polling_env
            (get_request ''/engine.io/?EIO=3&transport=polling&sid=s1&j=0&b64=1'') fresh_state)
     = Some (200, ''text/javascript; charset=UTF-8'',
             ''___eio[0]('' @ [CHR 0x22, CHR 0x22] @ ''6:4hello'' @
               [CHR 0x22, CHR 0x0A, CHR 0x22] @ '');'') \<and>
   ''___eio[0]('' @ [CHR 0x22, CHR 0x22] @ ''6:4hello'' @ [CHR 0x22, CHR 0x0A, CHR 0x22] @ '');''
     \<noteq> spec_JSONP ''0'' ''6:4hello''"
  by (simp add: shown_def HandleFastHTTP_def fastWriteJSONP_def sample_polling_env_def
        sample_ParseRequestURI_def get_request_def fresh_state_def queryJSONP_def
        queryBase64_def spec_JSONP_def)

section \<open>Socket.IO server: process\<close>

text \<open>
  C10. When the packet's namespace cannot be attached (\<open>attachnsp\<close> returns \<open>nil\<close>),
  \<open>process\<close> does nothing more for a Connect or Disconnect packet, and for any other
  packet type calls \<open>EmitError\<close> on that namespace with the text of
  \<open>ErrorNamespaceUnavaialble\<close>; it fires no event or ack handler and calls no
  \<open>onError\<close>.
\<close>

theorem unattached_namespace:
  assumes "attachnsp env (Namespace p) = None"
  shows "added tr (process env p tr) =
           Call_attachnsp (Namespace p) #
           (if Type p = PacketTypeConnect \<or> Type p = PacketTypeDisconnect then []
            else [Call_EmitError (Namespace p) (sio_Error_text env ErrorNamespaceUnavaialble)]) \<and>
         filter is_fire (added tr (process env p tr)) = [] \<and>
         filter is_onError (added tr (process env p tr)) = []"
  using assms
  by (auto simp: process_def added_def PacketTypeConnect_def PacketTypeDisconnect_def)

theorem unattached_namespace_witness:
  "attachnsp sample_sio_env ''/chat'' = None \<and>
   process sample_sio_env (event_pkt ''/chat'' [1, 1, 2]) []
     = [Call_attachnsp ''/chat'', Call_EmitError ''/chat'' ''namespace unavailable''] \<and>
   process sample_sio_env ((event_pkt ''/chat'' [])\<lparr>Type := PacketTypeConnect\<rparr>) []
     = [Call_attachnsp ''/chat''] \<and>
   process sample_sio_env ((event_pkt ''/chat'' [])\<lparr>Type := PacketTypeDisconnect\<rparr>) []
     = [Call_attachnsp ''/chat'']"
proof -
  have a: "attachnsp sample_sio_env ''/chat'' = None"
    and e: "sio_Error_text sample_sio_env ErrorNamespaceUnavaialble = ''namespace unavailable''"
    by (simp_all add: sample_sio_env_def)
  have n: "Namespace (event_pkt ''/chat'' xs) = ''/chat''" 
    "Type (event_pkt ''/chat'' xs) = PacketTypeEvent" for xs
    by (simp_all add: event_pkt_def)
  from unattached_namespace [of sample_sio_env "event_pkt ''/chat'' [1, 1, 2]" "[]"]
       unattached_namespace
         [of sample_sio_env "(event_pkt ''/chat'' [])\<lparr>Type := PacketTypeConnect\<rparr>" "[]"]
       unattached_namespace
         [of sample_sio_env "(event_pkt ''/chat'' [])\<lparr>Type := PacketTypeDisconnect\<rparr>" "[]"]
       a e n
  show ?thesis
    by (simp add: added_def PacketTypeConnect_def PacketTypeDisconnect_def PacketTypeEvent_def)
qed

text \<open>
  C5, as stated, fails: on a socket without an \<open>onError\<close> callback, an event with an
  id whose handler returns an error is dropped without any call of \<open>onError\<close>.
\<close>

theorem handler_error_unreported_counterexample:
  "process (sample_sio_env\<lparr>has_onError := False\<rparr>) (event_pkt ''/'' [2]) []
     = [Call_attachnsp ''/'', Call_ParseData (event_pkt ''/'' [2]),
        Call_fireEvent 0 ''fail'' ''[]'' []] \<and>
   filter is_onError (process (sample_sio_env\<lparr>has_onError := False\<rparr>) (event_pkt ''/'' [2]) [])
     = []"
  by (simp add: process_def sample_sio_env_def event_pkt_def sample_ParseData_def
        sample_fireEvent_def report_def PacketTypeEvent_def PacketTypeConnect_def
        PacketTypeDisconnect_def)

text \<open>
  C5, amended. For an Event or BinaryEvent packet with an id, on an attached namespace:
  when the data parses to a non-empty event name and the handler returns without error,
  \<open>ack\<close> is called exactly once, on the packet with the same id and with the handler's
  return values as data (\<open>nil\<close> when the handler returned a \<open>nil\<close> slice); when data
  parsing or the handler returns an error, \<open>ack\<close> is not called, and the error is
  passed to \<open>onError\<close> exactly when an \<open>onError\<close> callback is set.
\<close>

theorem event_with_id:
  assumes "Type p = PacketTypeEvent \<or> Type p = PacketTypeBinaryEvent"
    and "ID p = Some i" and "attachnsp env (Namespace p) = Some nsp"
  shows "(ParseData env p = Inr (event, dat, bin) \<and> event \<noteq> [] \<and>
          fireEvent env nsp event dat bin = Inr v \<longrightarrow>
            acked (added tr (process env p tr)) =
              [\<lparr>Type = Type p, Namespace = Namespace p, ID = Some i,
                Data = (case v of None \<Rightarrow> DataNil
                        | Some vs \<Rightarrow> DataValues (map Interface vs))\<rparr>]) \<and>
         (ParseData env p = Inl err \<or>
          (ParseData env p = Inr (event, dat, bin) \<and> event \<noteq> [] \<and>
           fireEvent env nsp event dat bin = Inl err) \<longrightarrow>
            acked (added tr (process env p tr)) = [] \<and>
            filter is_onError (added tr (process env p tr)) =
              (if has_onError env then [Call_onError (Namespace p) (OfError err)] else []))"
proof -
  have rec: "p\<lparr>Data := d\<rparr> = \<lparr>Type = Type p, Namespace = Namespace p, ID = Some i, Data = d\<rparr>"
    for d using assms(2) by (cases p) simp
  have ty: "Type p \<noteq> PacketTypeConnect" "Type p \<noteq> PacketTypeDisconnect"
    using assms(1)
    by (auto simp: PacketTypeEvent_def PacketTypeBinaryEvent_def PacketTypeConnect_def
          PacketTypeDisconnect_def)
  show ?thesis
    using assms ty
    by (auto simp: process_def added_def report_def ack_data_def Let_def rec
             split: option.splits)
qed

theorem event_with_id_witness:
  "Type (event_pkt ''/'' [1, 1, 2]) = PacketTypeEvent \<and> ID (event_pkt ''/'' [1, 1, 2]) = Some 1 \<and>
   attachnsp sample_sio_env ''/'' = Some 0 \<and>
   ParseData sample_sio_env (event_pkt ''/'' [1, 1, 2]) = Inr (''add'', ''[1,2]'', []) \<and>
   fireEvent sample_sio_env 0 ''add'' ''[1,2]'' [] = Inr (Some [ValueOf 3]) \<and>
   acked (process sample_sio_env (event_pkt ''/'' [1, 1, 2]) [])
     = [\<lparr>Type = PacketTypeEvent, Namespace = ''/'', ID = Some 1, Data = DataValues [3]\<rparr>] \<and>
   fireEvent sample_sio_env 0 ''log'' ''[]'' [] = Inr None \<and>
   acked (process sample_sio_env (event_pkt ''/'' [3]) [])
     = [\<lparr>Type = PacketTypeEvent, Namespace = ''/'', ID = Some 1, Data = DataNil\<rparr>] \<and>
   fireEvent sample_sio_env 0 ''fail'' ''[]'' [] = Inl (GoError ''handler failed'') \<and>
   acked (process sample_sio_env (event_pkt ''/'' [2]) []) = [] \<and>
   filter is_onError (process sample_sio_env (event_pkt ''/'' [2]) [])
     = [Call_onError ''/'' (OfError (GoError ''handler failed''))] \<and>
   ParseData sample_sio_env (event_pkt ''/'' []) = Inl (GoError ''invalid character'') \<and>
   acked (process sample_sio_env (event_pkt ''/'' []) []) = [] \<and>
   filter is_onError (process sample_sio_env (event_pkt ''/'' []) [])
     = [Call_onError ''/'' (OfError (GoError ''invalid character''))] \<and>
   filter is_onError (process (sample_sio_env\<lparr>has_onError := False\<rparr>) (event_pkt ''/'' []) [])
     = []"
proof -
  let ?quiet = "sample_sio_env\<lparr>has_onError := False\<rparr>"
  have pk: "Type (event_pkt n xs) = PacketTypeEvent" "ID (event_pkt n xs) = Some 1"
    "Namespace (event_pkt n xs) = n" for n xs
    by (simp_all add: event_pkt_def)
  have at: "attachnsp sample_sio_env ''/'' = Some 0" "attachnsp ?quiet ''/'' = Some 0"
    "has_onError sample_sio_env" "\<not> has_onError ?quiet"
    by (simp_all add: sample_sio_env_def)
  have pd: "ParseData sample_sio_env (event_pkt ''/'' [1, 1, 2]) = Inr (''add'', ''[1,2]'', [])"
    "ParseData sample_sio_env (event_pkt ''/'' [3]) = Inr (''log'', ''[]'', [])"
    "ParseData sample_sio_env (event_pkt ''/'' [2]) = Inr (''fail'', ''[]'', [])"
    "ParseData sample_sio_env (event_pkt ''/'' []) = Inl (GoError ''invalid character'')"
    "ParseData ?quiet (event_pkt ''/'' []) = Inl (GoError ''invalid character'')"
    by (simp_all add: sample_sio_env_def sample_ParseData_def event_pkt_def)
  have fe: "fireEvent sample_sio_env 0 ''add'' ''[1,2]'' [] = Inr (Some [ValueOf 3])"
    "fireEvent sample_sio_env 0 ''log'' ''[]'' [] = Inr None"
    "fireEvent sample_sio_env 0 ''fail'' ''[]'' [] = Inl (GoError ''handler failed'')"
    by (simp_all add: sample_sio_env_def sample_fireEvent_def)
  note ev = disjI1 [OF pk(1)]
  have a: "acked (process sample_sio_env (event_pkt ''/'' [1, 1, 2]) [])
             = [\<lparr>Type = PacketTypeEvent, Namespace = ''/'', ID = Some 1, Data = DataValues [3]\<rparr>]"
    using event_with_id
            [where env = sample_sio_env and p = "event_pkt ''/'' [1, 1, 2]" and i = 1 and nsp = 0
               and event = "''add''" and dat = "''[1,2]''" and bin = "[]"
               and v = "Some [ValueOf 3]" and tr = "[]" and err = ErrUnknownPacket,
             OF ev pk(2)]
          at pd fe
    by (simp add: pk added_def)
  have b: "acked (process sample_sio_env (event_pkt ''/'' [3]) [])
             = [\<lparr>Type = PacketTypeEvent, Namespace = ''/'', ID = Some 1, Data = DataNil\<rparr>]"
    using event_with_id
            [where env = sample_sio_env and p = "event_pkt ''/'' [3]" and i = 1 and nsp = 0
               and event = "''log''" and dat = "''[]''" and bin = "[]"
               and v = None and tr = "[]" and err = ErrUnknownPacket,
             OF ev pk(2)]
          at pd fe
    by (simp add: pk added_def)
  have c: "acked (process sample_sio_env (event_pkt ''/'' [2]) []) = [] \<and>
           filter is_onError (process sample_sio_env (event_pkt ''/'' [2]) [])
             = [Call_onError ''/'' (OfError (GoError ''handler failed''))]"
    using event_with_id
            [where env = sample_sio_env and p = "event_pkt ''/'' [2]" and i = 1 and nsp = 0
               and event = "''fail''" and dat = "''[]''" and bin = "[]"
               and v = None and tr = "[]" and err = "GoError ''handler failed''",
             OF ev pk(2)]
          at pd fe
    by (simp add: pk added_def)
  have d: "acked (process sample_sio_env (event_pkt ''/'' []) []) = [] \<and>
           filter is_onError (process sample_sio_env (event_pkt ''/'' []) [])
             = [Call_onError ''/'' (OfError (GoError ''invalid character''))]"
    using event_with_id
            [where env = sample_sio_env and p = "event_pkt ''/'' []" and i = 1 and nsp = 0
               and event = "[]" and dat = "[]" and bin = "[]"
               and v = None and tr = "[]" and err = "GoError ''invalid character''",
             OF ev pk(2)]
          at pd
    by (simp add: pk added_def)
  have e: "filter is_onError (process ?quiet (event_pkt ''/'' []) []) = []"
    using event_with_id
            [where env = ?quiet and p = "event_pkt ''/'' []" and i = 1 and nsp = 0
               and event = "[]" and dat = "[]" and bin = "[]"
               and v = None and tr = "[]" and err = "GoError ''invalid character''",
             OF ev pk(2)]
          at pd
    by (simp add: pk added_def)
  from pk at pd fe a b c d e show ?thesis by simp
qed

end
